theory Spec2Isabelle
  imports Complex_Main
begin

section \<open>The Lambda@Edge paywall function of step-2-cfdistribution.yml\<close>

text \<open>
  The inline JavaScript of the resource \<open>PaywallDemoLambdaEdgeFunction\<close> is embedded
  function by function, under the names it has in the source. JavaScript strings are
  modelled as \<open>string\<close>, one \<open>char\<close> for one code unit below 256 (tokens, header
  names, paths and the JSON member names used here are ASCII). A JavaScript value that may
  be \<open>undefined\<close> is an \<open>option\<close>, \<open>None\<close> being \<open>undefined\<close>. Every expression that
  can throw has the type \<open>exn + 'a\<close>, \<open>Inl\<close> being the exception thrown. The two
  \<open>console.log\<close> calls write to the log and are left out.
\<close>

subsection \<open>JavaScript values\<close>

text \<open>
  A number is \<open>NaN\<close>, an infinity or a finite value; \<open>json\<close> is what \<open>JSON.parse\<close>
  returns, an object being the list of its own members, each name once.
\<close>

datatype jsnum = NaN | NegInf | Fin real | PosInf

datatype json =
    JNull
  | JBool bool
  | JNum jsnum
  | JStr string
  | JArr "json list"
  | JObj "(string \<times> json) list"

type_synonym jsval = "json option"

datatype exn = TypeError | SyntaxError | CryptoError

fun bindE :: "exn + 'a \<Rightarrow> ('a \<Rightarrow> exn + 'b) \<Rightarrow> exn + 'b" where
  "bindE (Inl e) f = Inl e"
| "bindE (Inr x) f = f x"

text \<open>\<open>try { return body } catch (e) { return handler }\<close>\<close>

fun try_catch :: "exn + 'a \<Rightarrow> (exn \<Rightarrow> exn + 'a) \<Rightarrow> exn + 'a" where
  "try_catch (Inl e) h = h e"
| "try_catch (Inr x) h = Inr x"

text \<open>
  The relational operator \<open><\<close> on two numbers: false as soon as one side is \<open>NaN\<close>.
\<close>

fun num_lt :: "jsnum \<Rightarrow> jsnum \<Rightarrow> bool" where
  "num_lt NaN y = False"
| "num_lt x NaN = False"
| "num_lt PosInf y = False"
| "num_lt x NegInf = False"
| "num_lt NegInf y = True"
| "num_lt x PosInf = True"
| "num_lt (Fin a) (Fin b) = (a < b)"

text \<open>ToBoolean, as the conditional operator and \<open>!\<close> apply it.\<close>

fun truthy :: "jsval \<Rightarrow> bool" where
  "truthy None = False"
| "truthy (Some JNull) = False"
| "truthy (Some (JBool b)) = b"
| "truthy (Some (JNum x)) = (x \<noteq> NaN \<and> x \<noteq> Fin 0)"
| "truthy (Some (JStr s)) = (s \<noteq> [])"
| "truthy (Some (JArr xs)) = True"
| "truthy (Some (JObj kvs)) = True"

text \<open>
  \<open>v.name\<close> for a value that \<open>JSON.parse\<close> returned and a name that is neither an
  array index, nor \<open>length\<close>, nor a member of a built-in prototype (the source reads
  \<open>kid\<close>, \<open>exp\<close> and \<open>custom:subs\<close>): reading a property of \<open>null\<close> throws, an object
  yields its own member, anything else yields \<open>undefined\<close>.
\<close>

fun getProp :: "json \<Rightarrow> string \<Rightarrow> exn + jsval" where
  "getProp JNull name = Inl TypeError"
| "getProp (JObj kvs) name = Inr (map_of kvs name)"
| "getProp v name = Inr None"

text \<open>\<open>s.split(c)\<close> for a separator of one character.\<close>

fun split :: "char \<Rightarrow> string \<Rightarrow> string list" where
  "split c [] = [[]]"
| "split c (x # xs) =
     (if x = c then [] # split c xs
      else (case split c xs of [] \<Rightarrow> [[x]] | y # ys \<Rightarrow> (x # y) # ys))"

text \<open>\<open>xs[i]\<close>: \<open>undefined\<close> out of range.\<close>

definition idx :: "'a list \<Rightarrow> nat \<Rightarrow> 'a option" where
  "idx xs i = (if i < length xs then Some (xs ! i) else None)"

text \<open>\<open>s.indexOf(p)\<close>: the first position where \<open>p\<close> occurs in \<open>s\<close>, or \<open>-1\<close>.\<close>

fun indexOf :: "string \<Rightarrow> string \<Rightarrow> int" where
  "indexOf [] p = (if p = [] then 0 else -1)"
| "indexOf (x # xs) p =
     (if take (length p) (x # xs) = p then 0
      else (let r = indexOf xs p in if r < 0 then -1 else r + 1))"

text \<open>\<open>s.substring(n)\<close> for \<open>n \<ge> 0\<close>.\<close>

definition substring :: "string \<Rightarrow> nat \<Rightarrow> string" where
  "substring s n = drop n s"

text \<open>\<open>s.toLowerCase()\<close> on code units below 256.\<close>

definition upper_chars :: "char list" where
  "upper_chars = ''ABCDEFGHIJKLMNOPQRSTUVWXYZ'' @
     [CHR 0xC0, CHR 0xC1, CHR 0xC2, CHR 0xC3, CHR 0xC4, CHR 0xC5, CHR 0xC6, CHR 0xC7,
      CHR 0xC8, CHR 0xC9, CHR 0xCA, CHR 0xCB, CHR 0xCC, CHR 0xCD, CHR 0xCE, CHR 0xCF,
      CHR 0xD0, CHR 0xD1, CHR 0xD2, CHR 0xD3, CHR 0xD4, CHR 0xD5, CHR 0xD6,
      CHR 0xD8, CHR 0xD9, CHR 0xDA, CHR 0xDB, CHR 0xDC, CHR 0xDD, CHR 0xDE]"

definition lower_chars :: "char list" where
  "lower_chars = ''abcdefghijklmnopqrstuvwxyz'' @
     [CHR 0xE0, CHR 0xE1, CHR 0xE2, CHR 0xE3, CHR 0xE4, CHR 0xE5, CHR 0xE6, CHR 0xE7,
      CHR 0xE8, CHR 0xE9, CHR 0xEA, CHR 0xEB, CHR 0xEC, CHR 0xED, CHR 0xEE, CHR 0xEF,
      CHR 0xF0, CHR 0xF1, CHR 0xF2, CHR 0xF3, CHR 0xF4, CHR 0xF5, CHR 0xF6,
      CHR 0xF8, CHR 0xF9, CHR 0xFA, CHR 0xFB, CHR 0xFC, CHR 0xFD, CHR 0xFE]"

definition toLowerCase :: "string \<Rightarrow> string" where
  "toLowerCase s =
     map (\<lambda>c. case map_of (zip upper_chars lower_chars) c of None \<Rightarrow> c | Some l \<Rightarrow> l) s"

subsection \<open>The runtime: template parameters, clock and library primitives\<close>

text \<open>
  What the function takes from outside its own text:
  \<^item> \<open>KEYS\<close>: the object literal substituted for \<open>${PublicKeys}\<close>, from key identifier
    to PEM text (\<open>createPemKeys\<close> of index.js builds it);
  \<^item> \<open>ApiKeyValue\<close>: the string substituted for \<open>${ApiKeyValue}\<close>;
  \<^item> \<open>now\<close>: the value of \<open>(+ new Date()) / 1000\<close>, read once per invocation;
  \<^item> \<open>buffer_utf8\<close>: \<open>Buffer.from(s, 'base64url').toString('utf8')\<close> on a string;
  \<^item> \<open>buffer_base64\<close>: \<open>Buffer.from(s, 'base64url').toString('base64')\<close> on a string;
  \<^item> \<open>JSON_parse\<close>: \<open>JSON.parse\<close>, \<open>None\<close> when it throws a SyntaxError;
  \<^item> \<open>rsa_sha256_verify key input signature\<close>: \<open>crypto.createVerify('RSA-SHA256')\<close>
    fed \<open>input\<close>, then \<open>.verify(key, signature, 'base64')\<close>; the key is \<open>None\<close> when
    the value passed is not a string (\<open>undefined\<close>, \<open>null\<close>, an inherited member);
  \<^item> \<open>to_string\<close>: ToString on a number, an array or an object;
  \<^item> \<open>to_number\<close>: ToNumber on a string, an array or an object.
\<close>

record runtime =
  KEYS :: "string \<rightharpoonup> string"
  ApiKeyValue :: string
  now :: real
  buffer_utf8 :: "string \<Rightarrow> string"
  buffer_base64 :: "string \<Rightarrow> string"
  JSON_parse :: "string \<Rightarrow> json option"
  rsa_sha256_verify :: "string option \<Rightarrow> string \<Rightarrow> string \<Rightarrow> exn + bool"
  to_string :: "json \<Rightarrow> exn + string"
  to_number :: "json \<Rightarrow> exn + jsnum"

text \<open>ToPropertyKey, as \<open>KEYS[kid]\<close> applies it to \<open>kid\<close>.\<close>

fun toPropertyKey :: "runtime \<Rightarrow> jsval \<Rightarrow> exn + string" where
  "toPropertyKey rt None = Inr ''undefined''"
| "toPropertyKey rt (Some JNull) = Inr ''null''"
| "toPropertyKey rt (Some (JBool b)) = Inr (if b then ''true'' else ''false'')"
| "toPropertyKey rt (Some (JStr s)) = Inr s"
| "toPropertyKey rt (Some v) = to_string rt v"

text \<open>ToNumber, as \<open>expiration < now\<close> applies it to \<open>expiration\<close>.\<close>

fun toNumber :: "runtime \<Rightarrow> jsval \<Rightarrow> exn + jsnum" where
  "toNumber rt None = Inr NaN"
| "toNumber rt (Some JNull) = Inr (Fin 0)"
| "toNumber rt (Some (JBool b)) = Inr (Fin (if b then 1 else 0))"
| "toNumber rt (Some (JNum x)) = Inr x"
| "toNumber rt (Some v) = to_number rt v"

subsection \<open>Requests and responses\<close>

record header =
  hdr_key :: "string option"
  hdr_value :: string

record request =
  req_method :: string
  uri :: string
  querystring :: string
  headers :: "string \<rightharpoonup> header list"

record response =
  status :: string
  statusDescription :: string
  resp_headers :: "string \<rightharpoonup> header list"
  body :: string

text \<open>What the handler returns: the request, sent on to the origin, or a response.
  The field \<open>req_method\<close> is \<open>request.method\<close>.\<close>

datatype outcome = Forward request | Respond response

text \<open>The calls of \<open>verify\<close>, \<open>getObj\<close> and \<open>isExpired\<close> that one invocation makes.\<close>

datatype call = CallVerify string | CallGetObj string | CallIsExpired json

subsection \<open>The function\<close>

definition response401 :: response where
  "response401 =
     \<lparr> status = ''401'',
       statusDescription = ''Not authorized'',
       resp_headers =
         [''content-type'' \<mapsto> [\<lparr> hdr_key = Some ''Content-Type'', hdr_value = ''text/html'' \<rparr>]],
       body = ''Please login'' \<rparr>"

text \<open>
  \<open>mapping[k]\<close>, as far as \<open>subs.includes\<close> can tell: \<open>None\<close> is \<open>undefined\<close> or a
  member inherited from \<open>Object.prototype\<close>, neither of which is a string.
\<close>

definition mapping :: "string \<rightharpoonup> string" where
  "mapping = map_of [(''product-a'', ''A''), (''product-b'', ''B'')]"

definition base64urlDecode :: "runtime \<Rightarrow> string option \<Rightarrow> exn + string" where
  "base64urlDecode rt str =
     (case str of None \<Rightarrow> Inl TypeError | Some s \<Rightarrow> Inr (buffer_utf8 rt s))"

definition base64urlToBase64 :: "runtime \<Rightarrow> string option \<Rightarrow> exn + string" where
  "base64urlToBase64 rt str =
     (case str of None \<Rightarrow> Inl TypeError | Some s \<Rightarrow> Inr (buffer_base64 rt s))"

text \<open>
  \<open>getKey\<close> returns \<open>KEYS[kid]\<close>, or \<open>null\<close> when the property key cannot be computed;
  \<open>None\<close> is every result that is not PEM text.
\<close>

definition getKey :: "runtime \<Rightarrow> jsval \<Rightarrow> string option" where
  "getKey rt kid =
     (case toPropertyKey rt kid of Inl e \<Rightarrow> None | Inr k \<Rightarrow> KEYS rt k)"

text \<open>String concatenation \<open>'.' + payload\<close> turns \<open>undefined\<close> into its name.\<close>

definition str_of :: "string option \<Rightarrow> string" where
  "str_of s = (case s of None \<Rightarrow> ''undefined'' | Some t \<Rightarrow> t)"

text \<open>The body of the \<open>try\<close> block of \<open>verify\<close>.\<close>

definition verify_try :: "runtime \<Rightarrow> string \<Rightarrow> exn + bool" where
  "verify_try rt jwt =
     (let header = idx (split CHR ''.'' jwt) 0 in
      bindE (base64urlDecode rt header) (\<lambda>text.
      bindE (case JSON_parse rt text of None \<Rightarrow> Inl SyntaxError | Some v \<Rightarrow> Inr v)
        (\<lambda>headerObj.
      let payload = idx (split CHR ''.'' jwt) 1;
          signature = idx (split CHR ''.'' jwt) 2;
          written = str_of header @ ''.'' @ str_of payload in
      bindE (getProp headerObj ''kid'') (\<lambda>kid.
      bindE (base64urlToBase64 rt signature) (\<lambda>base64Signature.
      rsa_sha256_verify rt (getKey rt kid) written base64Signature)))))"

definition verify :: "runtime \<Rightarrow> string \<Rightarrow> exn + bool" where
  "verify rt jwt = try_catch (verify_try rt jwt) (\<lambda>e. Inr False)"

definition getObj :: "runtime \<Rightarrow> string \<Rightarrow> exn + json" where
  "getObj rt jwt =
     (let jwtPayload = idx (split CHR ''.'' jwt) 1 in
      bindE (base64urlDecode rt jwtPayload) (\<lambda>str.
      try_catch (case JSON_parse rt str of None \<Rightarrow> Inl SyntaxError | Some v \<Rightarrow> Inr v)
        (\<lambda>e. Inr (JArr []))))"

definition isExpired :: "runtime \<Rightarrow> json \<Rightarrow> exn + bool" where
  "isExpired rt jwtObj =
     bindE (getProp jwtObj ''exp'') (\<lambda>expiration.
     bindE (toNumber rt expiration) (\<lambda>e.
     if num_lt e (Fin (now rt)) then Inr True else Inr False))"

text \<open>The constant \<open>STR\<close> of the handler.\<close>

definition STR' :: string where
  "STR' = ''jwt=''"

text \<open>The loop over \<open>request.headers.cookie\<close>, from the entry at hand on.\<close>

fun find_jwt :: "header list \<Rightarrow> string option" where
  "find_jwt [] = None"
| "find_jwt (c # cs) =
     (if indexOf (hdr_value c) STR' \<ge> 0 then Some (substring (hdr_value c) (length STR'))
      else find_jwt cs)"

text \<open>
  \<open>obj['custom:subs'] ? obj['custom:subs'].split(',') : []\<close>: a truthy value that is
  not a string has no callable \<open>split\<close>, and the call throws.
\<close>

definition get_subs :: "json \<Rightarrow> exn + string list" where
  "get_subs obj =
     bindE (getProp obj ''custom:subs'') (\<lambda>v.
     if truthy v then (case v of Some (JStr s) \<Rightarrow> Inr (split CHR '','' s) | _ \<Rightarrow> Inl TypeError)
     else Inr [])"

text \<open>\<open>subs.includes(x)\<close> on a list of strings.\<close>

definition includes_str :: "string list \<Rightarrow> string option \<Rightarrow> bool" where
  "includes_str subs x = (case x of None \<Rightarrow> False | Some code \<Rightarrow> code \<in> set subs)"

definition set_header :: "request \<Rightarrow> string \<Rightarrow> string \<Rightarrow> request" where
  "set_header request name v =
     request\<lparr> headers := (headers request)(name \<mapsto> [\<lparr> hdr_key = None, hdr_value = v \<rparr>]) \<rparr>"

text \<open>The handler from \<open>let subs = ...\<close> to its end.\<close>

definition handler_claims :: "runtime \<Rightarrow> request \<Rightarrow> json \<Rightarrow> exn + outcome" where
  "handler_claims rt request obj =
     bindE (get_subs obj) (\<lambda>subs.
     let productFromUrl = idx (split CHR ''/'' (uri request)) 1 in
     case productFromUrl of
       None \<Rightarrow> Inr (Forward request)
     | Some product \<Rightarrow>
         if product = [] then Inr (Forward request)
         else
           let request1 =
                 (if includes_str subs (mapping (toLowerCase product))
                  then set_header request ''x-is-subscriber'' ''true''
                  else set_header request ''x-is-subscriber'' ''false'')
           in Inr (Forward (set_header request1 ''x-api-key'' (ApiKeyValue rt))))"

text \<open>The handler from \<open>let verified = verify(jwt)\<close> on, with the calls it makes.\<close>

definition handler_token :: "runtime \<Rightarrow> request \<Rightarrow> string \<Rightarrow> call list \<times> (exn + outcome)" where
  "handler_token rt request jwt =
     (case verify rt jwt of
        Inl e \<Rightarrow> ([CallVerify jwt], Inl e)
      | Inr verified \<Rightarrow>
          if \<not> verified then ([CallVerify jwt], Inr (Respond response401))
          else
            (case getObj rt jwt of
               Inl e \<Rightarrow> ([CallVerify jwt, CallGetObj jwt], Inl e)
             | Inr obj \<Rightarrow>
                 (case isExpired rt obj of
                    Inl e \<Rightarrow> ([CallVerify jwt, CallGetObj jwt, CallIsExpired obj], Inl e)
                  | Inr expired \<Rightarrow>
                      if expired
                      then ([CallVerify jwt, CallGetObj jwt, CallIsExpired obj],
                            Inr (Respond response401))
                      else ([CallVerify jwt, CallGetObj jwt, CallIsExpired obj],
                            handler_claims rt request obj))))"

text \<open>
  The entry point: the calls made and what is returned (\<open>Inl\<close>: the promise of the
  \<open>async\<close> function is rejected with the exception).
\<close>

definition handler :: "runtime \<Rightarrow> request \<Rightarrow> call list \<times> (exn + outcome)" where
  "handler rt request =
     (if req_method request \<noteq> ''GET'' then ([], Inr (Forward request))
      else
        (let jwt = (case headers request ''cookie'' of
                      None \<Rightarrow> None
                    | Some cookie \<Rightarrow> find_jwt cookie)
         in case jwt of
              None \<Rightarrow> ([], Inr (Respond response401))
            | Some j \<Rightarrow>
                if j = [] then ([], Inr (Respond response401))
                else handler_token rt request j))"

text \<open>
  A value of the claims has a member of a given name: only objects have members.
\<close>

fun has_member :: "json \<Rightarrow> string \<Rightarrow> bool" where
  "has_member (JObj kvs) name = (map_of kvs name \<noteq> None)"
| "has_member v name = False"

subsection \<open>A concrete runtime and concrete requests\<close>

text \<open>
  One deployment, used to run the function: the key set holds the key \<open>K1\<close>, the clock
  reads 1700000000 seconds, and the library primitives are tabulated on the segments and
  texts of six tokens (each segment below is the base64url form of the text beside it).
  \<open>demo_signed\<close> lists the signing inputs that carry a valid signature under \<open>K1\<close>,
  with that signature in base64. Outside the tables the decoders give the empty string
  and the parser rejects the text; the runs below leave the tables only to decode the
  segment \<open>=\<close> (no byte at all) and to parse the empty text (not JSON). In these
  tokens \<open>kid\<close> is a string and \<open>exp\<close> a number or absent, so no run applies
  \<open>to_string\<close> or \<open>to_number\<close>: the two fields of \<open>demo\<close> are placeholders, not
  JavaScript's ToString and ToNumber.
\<close>

definition seg_kid_K1 :: string where
  "seg_kid_K1 = ''eyJraWQiOiJLMSJ9''"

definition seg_kid_K9 :: string where
  "seg_kid_K9 = ''eyJraWQiOiJLOSJ9''"

definition seg_claims_fresh :: string where
  "seg_claims_fresh = ''eyJleHAiOjE4MDAwMDAwMDAsImN1c3RvbTpzdWJzIjoiQSxCIn0''"

definition seg_claims_stale :: string where
  "seg_claims_stale = ''eyJleHAiOjE2MDAwMDAwMDAsImN1c3RvbTpzdWJzIjoiQSxCIn0''"

definition seg_claims_noexp :: string where
  "seg_claims_noexp = ''eyJjdXN0b206c3VicyI6IkEifQ''"

definition seg_not_json :: string where
  "seg_not_json = ''bm90IGpzb24''"

definition seg_null :: string where
  "seg_null = ''bnVsbA''"

definition demo_utf8 :: "(string \<times> string) list" where
  \<open>demo_utf8 =
     [(seg_kid_K1, ''{"kid":"K1"}''),
      (seg_kid_K9, ''{"kid":"K9"}''),
      (seg_claims_fresh, ''{"exp":1800000000,"custom:subs":"A,B"}''),
      (seg_claims_stale, ''{"exp":1600000000,"custom:subs":"A,B"}''),
      (seg_claims_noexp, ''{"custom:subs":"A"}''),
      (seg_not_json, ''not json''),
      (seg_null, ''null'')]\<close>

definition demo_base64 :: "(string \<times> string) list" where
  "demo_base64 =
     [(''c2lnMQ'', ''c2lnMQ==''), (''c2lnMg'', ''c2lnMg==''), (''c2lnMw'', ''c2lnMw==''),
      (''c2lnNA'', ''c2lnNA==''), (''c2lnNQ'', ''c2lnNQ=='')]"

definition demo_json :: "(string \<times> json) list" where
  \<open>demo_json =
     [(''{"kid":"K1"}'', JObj [(''kid'', JStr ''K1'')]),
      (''{"kid":"K9"}'', JObj [(''kid'', JStr ''K9'')]),
      (''{"exp":1800000000,"custom:subs":"A,B"}'',
         JObj [(''exp'', JNum (Fin 1800000000)), (''custom:subs'', JStr ''A,B'')]),
      (''{"exp":1600000000,"custom:subs":"A,B"}'',
         JObj [(''exp'', JNum (Fin 1600000000)), (''custom:subs'', JStr ''A,B'')]),
      (''{"custom:subs":"A"}'', JObj [(''custom:subs'', JStr ''A'')]),
      (''null'', JNull)]\<close>

definition demo_signed :: "(string \<times> string) list" where
  "demo_signed =
     [(seg_kid_K1 @ ''.'' @ seg_claims_fresh, ''c2lnMQ==''),
      (seg_kid_K1 @ ''.'' @ seg_claims_stale, ''c2lnMg==''),
      (seg_kid_K1 @ ''.'' @ seg_claims_noexp, ''c2lnMw==''),
      (seg_kid_K1 @ ''.'' @ seg_not_json, ''c2lnNA==''),
      (seg_kid_K1 @ ''.'' @ seg_null, ''c2lnNQ=='')]"

definition demo :: runtime where
  "demo =
     \<lparr> KEYS = map_of [(''K1'', ''PEM-K1'')],
       ApiKeyValue = ''s3cr3t'',
       now = 1700000000,
       buffer_utf8 = (\<lambda>s. case map_of demo_utf8 s of None \<Rightarrow> [] | Some t \<Rightarrow> t),
       buffer_base64 = (\<lambda>s. case map_of demo_base64 s of None \<Rightarrow> [] | Some t \<Rightarrow> t),
       JSON_parse = map_of demo_json,
       rsa_sha256_verify =
         (\<lambda>key input signature.
            case key of
              None \<Rightarrow> Inl TypeError
            | Some pem \<Rightarrow> Inr (pem = ''PEM-K1'' \<and> (input, signature) \<in> set demo_signed)),
       to_string = (\<lambda>v. Inr ''[object Object]''),
       to_number = (\<lambda>v. Inr NaN) \<rparr>"

definition tok_fresh :: string where
  "tok_fresh = seg_kid_K1 @ ''.'' @ seg_claims_fresh @ ''.c2lnMQ''"

definition tok_stale :: string where
  "tok_stale = seg_kid_K1 @ ''.'' @ seg_claims_stale @ ''.c2lnMg''"

definition tok_noexp :: string where
  "tok_noexp = seg_kid_K1 @ ''.'' @ seg_claims_noexp @ ''.c2lnMw''"

definition tok_not_json :: string where
  "tok_not_json = seg_kid_K1 @ ''.'' @ seg_not_json @ ''.c2lnNA''"

definition tok_null :: string where
  "tok_null = seg_kid_K1 @ ''.'' @ seg_null @ ''.c2lnNQ''"

definition tok_other_key :: string where
  "tok_other_key = seg_kid_K9 @ ''.'' @ seg_claims_fresh @ ''.c2lnMQ''"

text \<open>A cookie entry as CloudFront hands it over, and a request with such entries.\<close>

definition cookie_entry :: "string \<Rightarrow> header" where
  "cookie_entry v = \<lparr> hdr_key = Some ''Cookie'', hdr_value = v \<rparr>"

definition demo_request :: "string \<Rightarrow> string \<Rightarrow> header list \<Rightarrow> request" where
  "demo_request m u cookie =
     \<lparr> req_method = m, uri = u, querystring = [], headers = [''cookie'' \<mapsto> cookie] \<rparr>"

definition bare_request :: "string \<Rightarrow> string \<Rightarrow> request" where
  "bare_request m u = \<lparr> req_method = m, uri = u, querystring = [], headers = Map.empty \<rparr>"

text \<open>A request in which the client supplies both headers itself.\<close>

definition forged_request :: request where
  "forged_request =
     \<lparr> req_method = ''GET'', uri = ''/product-b/content/9'', querystring = [],
       headers =
         [''cookie'' \<mapsto> [cookie_entry (''jwt='' @ tok_noexp)],
          ''x-is-subscriber'' \<mapsto> [\<lparr> hdr_key = Some ''X-Is-Subscriber'', hdr_value = ''true'' \<rparr>],
          ''x-api-key'' \<mapsto> [\<lparr> hdr_key = Some ''X-Api-Key'', hdr_value = ''guess'' \<rparr>]] \<rparr>"

section \<open>Properties\<close>

subsection \<open>Auxiliary facts\<close>

lemma split_no_sep: "c \<notin> set s \<Longrightarrow> split c s = [s]"
  by (induction s) auto

lemma split_append: "c \<notin> set h \<Longrightarrow> split c (h @ c # r) = h # split c r"
  by (induction h) auto

lemma split_three:
  assumes "c \<notin> set h" "c \<notin> set p" "c \<notin> set s"
  shows "split c (h @ c # p @ c # s) = [h, p, s]"
  using assms by (simp add: split_append split_no_sep)

lemma verify_returns: "verify rt jwt = Inr (case verify_try rt jwt of Inl e \<Rightarrow> False | Inr b \<Rightarrow> b)"
  by (cases "verify_try rt jwt") (simp_all add: verify_def)

lemma indexOf_prefix: "indexOf (STR' @ t) STR' = 0"
  by (simp add: STR'_def)

lemma find_jwt_skip:
  "\<forall>c \<in> set pre. indexOf (hdr_value c) STR' < 0 \<Longrightarrow> find_jwt (pre @ cs) = find_jwt cs"
  by (induction pre) auto

lemma find_jwt_none:
  "\<forall>c \<in> set cs. indexOf (hdr_value c) STR' < 0 \<Longrightarrow> find_jwt cs = None"
  by (induction cs) auto

lemma find_jwt_first:
  "\<forall>c \<in> set pre. indexOf (hdr_value c) STR' < 0 \<Longrightarrow> hdr_value c = STR' @ t \<Longrightarrow>
   find_jwt (pre @ c # post) = Some t"
  by (simp add: find_jwt_skip indexOf_prefix substring_def)

lemma mapping_cases:
  "mapping k = Some code \<Longrightarrow> (k = ''product-a'' \<and> code = ''A'') \<or> (k = ''product-b'' \<and> code = ''B'')"
  by (auto simp: mapping_def split: if_splits)

lemma toLowerCase_Nil: "toLowerCase [] = []"
  by (simp add: toLowerCase_def)

lemma includes_str_Nil: "includes_str [] x = False"
  by (simp add: includes_str_def split: option.splits)

lemma isExpired_no_exp:
  "obj \<noteq> JNull \<Longrightarrow> \<not> has_member obj ''exp'' \<Longrightarrow> isExpired rt obj = Inr False"
  by (cases obj) (simp_all add: isExpired_def)

lemma handler_get:
  assumes "req_method request = ''GET''" "headers request ''cookie'' = Some cookie"
    "find_jwt cookie = Some jwt" "jwt \<noteq> []"
  shows "handler rt request = handler_token rt request jwt"
  using assms by (simp add: handler_def)

lemma handler_token_reached:
  assumes "verify rt jwt = Inr True" "getObj rt jwt = Inr obj" "isExpired rt obj = Inr False"
  shows "handler_token rt request jwt =
         ([CallVerify jwt, CallGetObj jwt, CallIsExpired obj], handler_claims rt request obj)"
  using assms by (simp add: handler_token_def)

lemma handler_token_forward:
  assumes "snd (handler_token rt request jwt) = Inr (Forward q)"
  shows "\<exists>obj. fst (handler_token rt request jwt) =
            [CallVerify jwt, CallGetObj jwt, CallIsExpired obj] \<and>
          verify rt jwt = Inr True \<and> getObj rt jwt = Inr obj \<and> isExpired rt obj = Inr False"
  using assms by (auto simp: handler_token_def split: sum.splits if_splits)

lemma handler_claims_not_respond: "handler_claims rt request obj \<noteq> Inr (Respond r)"
  by (cases "get_subs obj") (auto simp: handler_claims_def Let_def split: option.splits)

lemma handler_token_respond:
  "snd (handler_token rt request jwt) = Inr (Respond r) \<Longrightarrow> r = response401"
  by (auto simp: handler_token_def handler_claims_not_respond
      split: sum.splits if_splits)

lemma handler_respond:
  "snd (handler rt request) = Inr (Respond r) \<Longrightarrow> r = response401"
  by (auto simp: handler_def Let_def dest: handler_token_respond
      split: if_splits option.splits)

lemma set_header_overwrites:
  "set_header (set_header (request\<lparr> headers := (headers request)(''x-is-subscriber'' := a, ''x-api-key'' := b) \<rparr>)
      ''x-is-subscriber'' v) ''x-api-key'' w =
   set_header (set_header request ''x-is-subscriber'' v) ''x-api-key'' w"
  by (simp add: set_header_def fun_upd_twist)

lemma handler_claims_overwrites:
  "handler_claims rt (request\<lparr> headers := (headers request)(''x-is-subscriber'' := a, ''x-api-key'' := b) \<rparr>) obj
   = (case idx (split CHR ''/'' (uri request)) 1 of
        None \<Rightarrow> handler_claims rt (request\<lparr> headers := (headers request)(''x-is-subscriber'' := a, ''x-api-key'' := b) \<rparr>) obj
      | Some product \<Rightarrow> if product = [] then handler_claims rt (request\<lparr> headers := (headers request)(''x-is-subscriber'' := a, ''x-api-key'' := b) \<rparr>) obj
          else handler_claims rt request obj)"
  by (cases "get_subs obj")
    (auto simp: handler_claims_def Let_def set_header_overwrites split: option.splits)

lemma missing_token_rejected:
  assumes "req_method request = ''GET''"
    and "headers request ''cookie'' = None \<or>
         (\<exists>cookie. headers request ''cookie'' = Some cookie \<and>
            (\<forall>c \<in> set cookie. indexOf (hdr_value c) STR' < 0))"
  shows "handler rt request = ([], Inr (Respond response401))"
  using assms by (auto simp: handler_def find_jwt_none)

text \<open>The definitions unfolded when the function is run on a concrete request.\<close>

lemmas demo_defs =
  demo_def demo_utf8_def demo_base64_def demo_json_def demo_signed_def
  seg_kid_K1_def seg_kid_K9_def seg_claims_fresh_def seg_claims_stale_def
  seg_claims_noexp_def seg_not_json_def seg_null_def
  tok_fresh_def tok_stale_def tok_noexp_def tok_not_json_def tok_null_def tok_other_key_def
  cookie_entry_def demo_request_def bare_request_def

lemmas run_defs =
  handler_def handler_token_def handler_claims_def verify_def verify_try_def getObj_def
  isExpired_def get_subs_def getKey_def base64urlDecode_def base64urlToBase64_def
  str_of_def idx_def STR'_def substring_def includes_str_def mapping_def toLowerCase_def
  upper_chars_def lower_chars_def set_header_def

subsection \<open>C1: A subscriber's request\<close>

text \<open>
  C1. The claim fails when another cookie entry whose value contains \<open>jwt=\<close> comes
  before the entry that carries the token. The GET request below asks for
  \<open>/product-a/content/123\<close> with the entries \<open>ajwt=\<close> and \<open>jwt=\<close> followed by a
  token of three segments, whose \<open>kid\<close> is in the key set, whose signature verifies,
  whose \<open>exp\<close> is in the future and whose subscriptions contain the code \<open>A\<close> of
  \<open>product-a\<close>; the handler takes \<open>=\<close> from the first entry as the token and
  returns the rejection response.
\<close>

theorem subscriber_behind_other_cookie:
  "req_method (demo_request ''GET'' ''/product-a/content/123''
        [cookie_entry ''ajwt='', cookie_entry (''jwt='' @ tok_fresh)]) = ''GET'' \<and>
   headers (demo_request ''GET'' ''/product-a/content/123''
        [cookie_entry ''ajwt='', cookie_entry (''jwt='' @ tok_fresh)]) ''cookie'' =
     Some [cookie_entry ''ajwt='', cookie_entry (''jwt='' @ tok_fresh)] \<and>
   split CHR ''.'' tok_fresh = [seg_kid_K1, seg_claims_fresh, ''c2lnMQ''] \<and>
   JSON_parse demo (buffer_utf8 demo seg_kid_K1) = Some (JObj [(''kid'', JStr ''K1'')]) \<and>
   KEYS demo ''K1'' = Some ''PEM-K1'' \<and>
   verify demo tok_fresh = Inr True \<and>
   getObj demo tok_fresh =
     Inr (JObj [(''exp'', JNum (Fin 1800000000)), (''custom:subs'', JStr ''A,B'')]) \<and>
   isExpired demo (JObj [(''exp'', JNum (Fin 1800000000)), (''custom:subs'', JStr ''A,B'')]) =
     Inr False \<and>
   get_subs (JObj [(''exp'', JNum (Fin 1800000000)), (''custom:subs'', JStr ''A,B'')]) =
     Inr [''A'', ''B''] \<and>
   idx (split CHR ''/'' ''/product-a/content/123'') 1 = Some ''product-a'' \<and>
   mapping ''product-a'' = Some ''A'' \<and>
   handler demo (demo_request ''GET'' ''/product-a/content/123''
        [cookie_entry ''ajwt='', cookie_entry (''jwt='' @ tok_fresh)]) =
     ([CallVerify ''=''], Inr (Respond response401))"
  by (simp add: demo_defs run_defs)

text \<open>
  When no entry before the one carrying the token contains \<open>jwt=\<close>, such a request is
  returned with \<open>x-is-subscriber\<close> set to \<open>true\<close> and \<open>x-api-key\<close> set to the
  shared secret, and otherwise as it came: for every runtime, a GET request whose first
  cookie entry containing \<open>jwt=\<close> is \<open>jwt=\<close> followed by a token of three dot-free
  segments, whose header names a \<open>kid\<close> of the key set, whose signature the primitive
  accepts under that key, whose \<open>exp\<close> lies after the clock reading, and whose
  comma-separated \<open>custom:subs\<close> contains the code that the product mapping gives for
  the lower-cased first path segment.
\<close>

lemma subscriber_forwarded:
  assumes get: "req_method request = ''GET''"
    and cookie: "headers request ''cookie'' = Some (pre @ c # post)"
    and pre: "\<forall>c' \<in> set pre. indexOf (hdr_value c') STR' < 0"
    and carried: "hdr_value c = ''jwt='' @ jwt"
    and segments: "jwt = h @ ''.'' @ p @ ''.'' @ s"
      "CHR ''.'' \<notin> set h" "CHR ''.'' \<notin> set p" "CHR ''.'' \<notin> set s"
    and header: "JSON_parse rt (buffer_utf8 rt h) = Some (JObj hdr)"
      "map_of hdr ''kid'' = Some (JStr kid)"
    and key: "KEYS rt kid = Some pem"
    and signed: "rsa_sha256_verify rt (Some pem) (h @ ''.'' @ p) (buffer_base64 rt s) = Inr True"
    and claims: "JSON_parse rt (buffer_utf8 rt p) = Some (JObj cl)"
    and exp: "map_of cl ''exp'' = Some (JNum (Fin e))" "now rt < e"
    and subs: "map_of cl ''custom:subs'' = Some (JStr subs)"
    and product: "idx (split CHR ''/'' (uri request)) 1 = Some product"
      "mapping (toLowerCase product) = Some code"
    and entitled: "code \<in> set (split CHR '','' subs)"
  shows "snd (handler rt request) =
           Inr (Forward (request\<lparr> headers := (headers request)
                  (''x-is-subscriber'' \<mapsto> [\<lparr> hdr_key = None, hdr_value = ''true'' \<rparr>],
                   ''x-api-key'' \<mapsto> [\<lparr> hdr_key = None, hdr_value = ApiKeyValue rt \<rparr>]) \<rparr>))"
proof -
  have sp: "split CHR ''.'' jwt = [h, p, s]"
    using segments by (simp add: split_three)
  have fj: "find_jwt (pre @ c # post) = Some jwt"
    using pre carried by (intro find_jwt_first) (simp_all add: STR'_def)
  have ne: "jwt \<noteq> []"
    using segments by simp
  have "verify_try rt jwt = Inr True"
    using header key signed
    by (simp add: verify_try_def sp idx_def base64urlDecode_def base64urlToBase64_def
        str_of_def getKey_def)
  then have v: "verify rt jwt = Inr True"
    by (simp add: verify_def)
  have go: "getObj rt jwt = Inr (JObj cl)"
    using claims by (simp add: getObj_def sp idx_def base64urlDecode_def)
  have ie: "isExpired rt (JObj cl) = Inr False"
    using exp by (simp add: isExpired_def)
  from product(2) have cases: "code = ''A'' \<or> code = ''B''" and pne: "product \<noteq> []"
    using mapping_cases [of "toLowerCase product" code] toLowerCase_Nil by auto
  have sne: "subs \<noteq> []"
    using entitled cases by auto
  have gs: "get_subs (JObj cl) = Inr (split CHR '','' subs)"
    using subs sne by (simp add: get_subs_def)
  have inc: "includes_str (split CHR '','' subs) (mapping (toLowerCase product))"
    using product(2) entitled by (simp add: includes_str_def)
  have hc: "handler_claims rt request (JObj cl) =
           Inr (Forward (request\<lparr> headers := (headers request)
                  (''x-is-subscriber'' \<mapsto> [\<lparr> hdr_key = None, hdr_value = ''true'' \<rparr>],
                   ''x-api-key'' \<mapsto> [\<lparr> hdr_key = None, hdr_value = ApiKeyValue rt \<rparr>]) \<rparr>))"
    using gs product(1) pne inc by (simp add: handler_claims_def set_header_def)
  have "handler rt request = handler_token rt request jwt"
    using get cookie fj ne by (rule handler_get)
  then show ?thesis
    using handler_token_reached [OF v go ie] hc by simp
qed

text \<open>
  The same at the subscriber of products A and B asking for \<open>/product-a/content/123\<close>
  with the token in the only cookie entry.
\<close>

lemma subscriber_forwarded_run:
  "snd (handler demo (demo_request ''GET'' ''/product-a/content/123''
          [cookie_entry (''jwt='' @ tok_fresh)])) =
   Inr (Forward ((demo_request ''GET'' ''/product-a/content/123''
          [cookie_entry (''jwt='' @ tok_fresh)])
      \<lparr> headers :=
          [''cookie'' \<mapsto> [cookie_entry (''jwt='' @ tok_fresh)],
           ''x-is-subscriber'' \<mapsto> [\<lparr> hdr_key = None, hdr_value = ''true'' \<rparr>],
           ''x-api-key'' \<mapsto> [\<lparr> hdr_key = None, hdr_value = ''s3cr3t'' \<rparr>]] \<rparr>))"
proof -
  have "snd (handler demo (demo_request ''GET'' ''/product-a/content/123''
          [cookie_entry (''jwt='' @ tok_fresh)])) =
     Inr (Forward ((demo_request ''GET'' ''/product-a/content/123''
          [cookie_entry (''jwt='' @ tok_fresh)])
      \<lparr> headers := (headers (demo_request ''GET'' ''/product-a/content/123''
          [cookie_entry (''jwt='' @ tok_fresh)]))
          (''x-is-subscriber'' \<mapsto> [\<lparr> hdr_key = None, hdr_value = ''true'' \<rparr>],
           ''x-api-key'' \<mapsto> [\<lparr> hdr_key = None, hdr_value = ApiKeyValue demo \<rparr>]) \<rparr>))"
  proof (rule subscriber_forwarded [where pre = "[]" and post = "[]"
        and c = "cookie_entry (''jwt='' @ tok_fresh)" and jwt = tok_fresh
        and h = seg_kid_K1 and p = seg_claims_fresh and s = "''c2lnMQ''"
        and hdr = "[(''kid'', JStr ''K1'')]" and kid = "''K1''" and pem = "''PEM-K1''"
        and cl = "[(''exp'', JNum (Fin 1800000000)), (''custom:subs'', JStr ''A,B'')]"
        and e = 1800000000 and subs = "''A,B''" and product = "''product-a''"
        and code = "''A''"])
  qed (simp_all add: demo_defs run_defs)
  then show ?thesis
    by (simp add: demo_def demo_request_def)
qed

subsection \<open>C2: A path without product, or with an unknown one\<close>

text \<open>
  C2 fails for a first segment that is not a key of the mapping: the request for
  \<open>/product-c/content/5\<close> is forwarded with \<open>x-is-subscriber\<close> set to \<open>false\<close>
  (and \<open>x-api-key\<close>), a header the inbound request did not have.
\<close>

theorem unmapped_product_marked:
  "idx (split CHR ''/'' ''/product-c/content/5'') 1 = Some ''product-c'' \<and>
   mapping ''product-c'' = None \<and>
   snd (handler demo (demo_request ''GET'' ''/product-c/content/5''
        [cookie_entry (''jwt='' @ tok_fresh)])) =
     Inr (Forward (set_header (set_header (demo_request ''GET'' ''/product-c/content/5''
        [cookie_entry (''jwt='' @ tok_fresh)]) ''x-is-subscriber'' ''false'')
          ''x-api-key'' ''s3cr3t'')) \<and>
   headers (set_header (set_header (demo_request ''GET'' ''/product-c/content/5''
        [cookie_entry (''jwt='' @ tok_fresh)]) ''x-is-subscriber'' ''false'')
          ''x-api-key'' ''s3cr3t'') ''x-is-subscriber'' =
     Some [\<lparr> hdr_key = None, hdr_value = ''false'' \<rparr>] \<and>
   headers (demo_request ''GET'' ''/product-c/content/5''
        [cookie_entry (''jwt='' @ tok_fresh)]) ''x-is-subscriber'' = None"
  by (simp add: demo_defs run_defs)

text \<open>
  C2, amended. For a GET request whose token verifies and is unexpired and whose
  subscriptions can be read: when the path has no first segment or an empty one, the
  request is forwarded unchanged; when the first segment is non-empty and its lower-case
  form is not a key of the product mapping, the request is forwarded with
  \<open>x-is-subscriber\<close> set to \<open>false\<close> and \<open>x-api-key\<close> set to the shared secret.
\<close>

theorem product_absent_or_unmapped:
  assumes get: "req_method request = ''GET''"
    and cookie: "headers request ''cookie'' = Some cookie"
    and carried: "find_jwt cookie = Some jwt" "jwt \<noteq> []"
    and verified: "verify rt jwt = Inr True"
    and unexpired: "getObj rt jwt = Inr obj" "isExpired rt obj = Inr False"
    and subs: "get_subs obj = Inr subs"
  shows "(idx (split CHR ''/'' (uri request)) 1 = None \<or>
          idx (split CHR ''/'' (uri request)) 1 = Some []
            \<longrightarrow> snd (handler rt request) = Inr (Forward request)) \<and>
         (idx (split CHR ''/'' (uri request)) 1 = Some product \<and> product \<noteq> [] \<and>
          mapping (toLowerCase product) = None
            \<longrightarrow> snd (handler rt request) =
                  Inr (Forward (set_header (set_header request ''x-is-subscriber'' ''false'')
                         ''x-api-key'' (ApiKeyValue rt))))"
proof -
  have "handler rt request =
      ([CallVerify jwt, CallGetObj jwt, CallIsExpired obj], handler_claims rt request obj)"
    using handler_get [OF get cookie carried] handler_token_reached [OF verified unexpired]
    by simp
  then show ?thesis
    using subs by (auto simp: handler_claims_def includes_str_def)
qed

text \<open>
  C2, amended, at the paths \<open>/\<close> and \<open>/product-c/content/5\<close>.
\<close>

theorem product_absent_or_unmapped_witness:
  "snd (handler demo (demo_request ''GET'' ''/'' [cookie_entry (''jwt='' @ tok_fresh)])) =
     Inr (Forward (demo_request ''GET'' ''/'' [cookie_entry (''jwt='' @ tok_fresh)])) \<and>
   snd (handler demo (demo_request ''GET'' ''/product-c/content/5''
        [cookie_entry (''jwt='' @ tok_fresh)])) =
     Inr (Forward (set_header (set_header (demo_request ''GET'' ''/product-c/content/5''
        [cookie_entry (''jwt='' @ tok_fresh)]) ''x-is-subscriber'' ''false'')
          ''x-api-key'' ''s3cr3t''))"
proof -
  let ?o = "JObj [(''exp'', JNum (Fin 1800000000)), (''custom:subs'', JStr ''A,B'')]"
  let ?r1 = "demo_request ''GET'' ''/'' [cookie_entry (''jwt='' @ tok_fresh)]"
  let ?r2 = "demo_request ''GET'' ''/product-c/content/5'' [cookie_entry (''jwt='' @ tok_fresh)]"
  have run: "verify demo tok_fresh = Inr True" "getObj demo tok_fresh = Inr ?o"
    "isExpired demo ?o = Inr False" "get_subs ?o = Inr [''A'', ''B'']"
    "find_jwt [cookie_entry (''jwt='' @ tok_fresh)] = Some tok_fresh" "tok_fresh \<noteq> []"
    by (simp_all add: demo_defs run_defs)
  have r1: "req_method ?r1 = ''GET''" "headers ?r1 ''cookie'' = Some [cookie_entry (''jwt='' @ tok_fresh)]"
    "idx (split CHR ''/'' (uri ?r1)) 1 = Some []"
    by (simp_all add: demo_request_def idx_def)
  have r2: "req_method ?r2 = ''GET''" "headers ?r2 ''cookie'' = Some [cookie_entry (''jwt='' @ tok_fresh)]"
    "idx (split CHR ''/'' (uri ?r2)) 1 = Some ''product-c''"
    "mapping (toLowerCase ''product-c'') = None" "ApiKeyValue demo = ''s3cr3t''"
    by (simp_all add: demo_request_def idx_def mapping_def toLowerCase_def upper_chars_def
        lower_chars_def demo_def)
  from product_absent_or_unmapped [OF r1(1,2) run(5,6,1,2,3,4)] r1(3)
  have a: "snd (handler demo ?r1) = Inr (Forward ?r1)"
    by blast
  from product_absent_or_unmapped [OF r2(1,2) run(5,6,1,2,3,4), of "''product-c''"] r2(3,4,5)
  have b: "snd (handler demo ?r2) =
     Inr (Forward (set_header (set_header ?r2 ''x-is-subscriber'' ''false'') ''x-api-key'' ''s3cr3t''))"
    by simp
  from a b show ?thesis by simp
qed

subsection \<open>C3: Claims that do not parse\<close>

text \<open>
  C3 fails: for a verified token whose claims segment decodes to \<open>not json\<close>,
  \<open>getObj\<close> reports no error but returns an empty array, and the request is forwarded
  with \<open>x-is-subscriber\<close> set to \<open>false\<close> instead of being rejected.
\<close>

theorem unparsable_claims_forwarded:
  "JSON_parse demo (buffer_utf8 demo seg_not_json) = None \<and>
   getObj demo tok_not_json = Inr (JArr []) \<and>
   handler demo (demo_request ''GET'' ''/product-a/content/123''
        [cookie_entry (''jwt='' @ tok_not_json)]) =
     ([CallVerify tok_not_json, CallGetObj tok_not_json, CallIsExpired (JArr [])],
      Inr (Forward (set_header (set_header (demo_request ''GET'' ''/product-a/content/123''
        [cookie_entry (''jwt='' @ tok_not_json)]) ''x-is-subscriber'' ''false'')
          ''x-api-key'' ''s3cr3t'')))"
  by (simp add: demo_defs run_defs)

text \<open>
  C3, amended. For a token whose claims segment does not parse as JSON, \<open>getObj\<close>
  returns an empty array and no error; the token then counts as unexpired, with an empty
  subscription list; and a GET request carrying it, once \<open>verify\<close> accepts it, is
  forwarded: unchanged when the path has no first segment or an empty one, otherwise
  with \<open>x-is-subscriber\<close> set to \<open>false\<close> and \<open>x-api-key\<close> set.
\<close>

theorem unparsable_claims_permissive:
  assumes payload: "idx (split CHR ''.'' jwt) 1 = Some p"
    and unparsable: "JSON_parse rt (buffer_utf8 rt p) = None"
  shows "getObj rt jwt = Inr (JArr []) \<and>
         isExpired rt (JArr []) = Inr False \<and>
         get_subs (JArr []) = Inr [] \<and>
         (req_method request = ''GET'' \<and> headers request ''cookie'' = Some cookie \<and>
          find_jwt cookie = Some jwt \<and> verify rt jwt = Inr True
            \<longrightarrow> handler rt request =
                  ([CallVerify jwt, CallGetObj jwt, CallIsExpired (JArr [])],
                   Inr (Forward
                     (case idx (split CHR ''/'' (uri request)) 1 of
                        None \<Rightarrow> request
                      | Some product \<Rightarrow>
                          if product = [] then request
                          else set_header (set_header request ''x-is-subscriber'' ''false'')
                                 ''x-api-key'' (ApiKeyValue rt)))))"
proof -
  have go: "getObj rt jwt = Inr (JArr [])"
    using payload unparsable by (simp add: getObj_def base64urlDecode_def)
  have ie: "isExpired rt (JArr []) = Inr False"
    by (simp add: isExpired_def)
  have gs: "get_subs (JArr []) = Inr []"
    by (simp add: get_subs_def)
  have ne: "jwt \<noteq> []"
    using payload by (auto simp: idx_def)
  have hc: "handler_claims rt request (JArr []) =
      Inr (Forward
             (case idx (split CHR ''/'' (uri request)) 1 of
                None \<Rightarrow> request
              | Some product \<Rightarrow>
                  if product = [] then request
                  else set_header (set_header request ''x-is-subscriber'' ''false'')
                         ''x-api-key'' (ApiKeyValue rt)))"
    by (simp add: handler_claims_def gs includes_str_Nil split: option.splits)
  show ?thesis
  proof (intro conjI impI)
    assume a: "req_method request = ''GET'' \<and> headers request ''cookie'' = Some cookie \<and>
          find_jwt cookie = Some jwt \<and> verify rt jwt = Inr True"
    then have "handler rt request = handler_token rt request jwt"
      using ne by (simp add: handler_get)
    then show "handler rt request =
                  ([CallVerify jwt, CallGetObj jwt, CallIsExpired (JArr [])],
                   Inr (Forward
                     (case idx (split CHR ''/'' (uri request)) 1 of
                        None \<Rightarrow> request
                      | Some product \<Rightarrow>
                          if product = [] then request
                          else set_header (set_header request ''x-is-subscriber'' ''false'')
                                 ''x-api-key'' (ApiKeyValue rt))))"
      using a handler_token_reached [OF _ go ie] hc by simp
  qed (rule go ie gs)+
qed

text \<open>
  C3, amended, at the token whose claims segment decodes to \<open>not json\<close>.
\<close>

theorem unparsable_claims_permissive_witness:
  "getObj demo tok_not_json = Inr (JArr []) \<and>
   handler demo (demo_request ''GET'' ''/product-b/content/1''
        [cookie_entry (''jwt='' @ tok_not_json)]) =
     ([CallVerify tok_not_json, CallGetObj tok_not_json, CallIsExpired (JArr [])],
      Inr (Forward (set_header (set_header (demo_request ''GET'' ''/product-b/content/1''
        [cookie_entry (''jwt='' @ tok_not_json)]) ''x-is-subscriber'' ''false'')
          ''x-api-key'' ''s3cr3t'')))"
proof -
  let ?r = "demo_request ''GET'' ''/product-b/content/1'' [cookie_entry (''jwt='' @ tok_not_json)]"
  have p: "idx (split CHR ''.'' tok_not_json) 1 = Some seg_not_json"
    "JSON_parse demo (buffer_utf8 demo seg_not_json) = None"
    by (simp_all add: demo_defs run_defs)
  have q: "req_method ?r = ''GET''" "headers ?r ''cookie'' = Some [cookie_entry (''jwt='' @ tok_not_json)]"
    "find_jwt [cookie_entry (''jwt='' @ tok_not_json)] = Some tok_not_json"
    "verify demo tok_not_json = Inr True"
    "idx (split CHR ''/'' (uri ?r)) 1 = Some ''product-b''" "ApiKeyValue demo = ''s3cr3t''"
    by (simp_all add: demo_defs run_defs)
  from unparsable_claims_permissive [OF p, of ?r "[cookie_entry (''jwt='' @ tok_not_json)]"] q
  show ?thesis
    by simp
qed

subsection \<open>C4: Expired tokens\<close>

text \<open>
  C4 fails for a request that is not a GET: a HEAD request whose cookie carries a token
  with a valid signature and \<open>exp\<close> 1600000000, against a clock reading of 1700000000,
  is sent on to the origin as it came, with no call made.
\<close>

theorem expired_head_forwarded:
  "find_jwt [cookie_entry (''jwt='' @ tok_stale)] = Some tok_stale \<and>
   verify demo tok_stale = Inr True \<and>
   getObj demo tok_stale =
     Inr (JObj [(''exp'', JNum (Fin 1600000000)), (''custom:subs'', JStr ''A,B'')]) \<and>
   isExpired demo (JObj [(''exp'', JNum (Fin 1600000000)), (''custom:subs'', JStr ''A,B'')]) =
     Inr True \<and>
   handler demo (demo_request ''HEAD'' ''/product-a/content/123''
        [cookie_entry (''jwt='' @ tok_stale)]) =
     ([], Inr (Forward (demo_request ''HEAD'' ''/product-a/content/123''
        [cookie_entry (''jwt='' @ tok_stale)])))"
  by (simp add: demo_defs run_defs)

text \<open>
  C4, amended. When the token that the handler takes from the cookie of a GET request
  has claims whose \<open>exp\<close> is a number strictly below the clock reading, the handler
  returns the fixed rejection response, whatever \<open>verify\<close> answers and whatever the
  other claims are; when the signature verifies, the rejection is the one after
  \<open>isExpired\<close>.
\<close>

theorem expired_rejected:
  assumes get: "req_method request = ''GET''"
    and cookie: "headers request ''cookie'' = Some cookie"
    and carried: "find_jwt cookie = Some jwt"
    and payload: "idx (split CHR ''.'' jwt) 1 = Some p"
    and claims: "JSON_parse rt (buffer_utf8 rt p) = Some (JObj cl)"
    and exp: "map_of cl ''exp'' = Some (JNum x)" "num_lt x (Fin (now rt))"
  shows "snd (handler rt request) = Inr (Respond response401) \<and>
         (verify rt jwt = Inr True \<longrightarrow>
            fst (handler rt request) = [CallVerify jwt, CallGetObj jwt, CallIsExpired (JObj cl)])"
proof -
  have ne: "jwt \<noteq> []"
    using payload by (auto simp: idx_def)
  have h: "handler rt request = handler_token rt request jwt"
    using get cookie carried ne by (rule handler_get)
  have go: "getObj rt jwt = Inr (JObj cl)"
    using payload claims by (simp add: getObj_def base64urlDecode_def)
  have ie: "isExpired rt (JObj cl) = Inr True"
    using exp by (simp add: isExpired_def)
  obtain b where b: "verify rt jwt = Inr b"
    using verify_returns by blast
  show ?thesis
    using h b go ie by (cases b) (simp_all add: handler_token_def)
qed

text \<open>
  C4, amended, at a token with a valid signature, subscriptions A and B, and \<open>exp\<close> 1600000000
  against a clock reading of 1700000000.
\<close>

theorem expired_rejected_witness:
  "verify demo tok_stale = Inr True \<and>
   handler demo (demo_request ''GET'' ''/product-a/content/123''
          [cookie_entry (''jwt='' @ tok_stale)]) =
     ([CallVerify tok_stale, CallGetObj tok_stale,
       CallIsExpired (JObj [(''exp'', JNum (Fin 1600000000)), (''custom:subs'', JStr ''A,B'')])],
      Inr (Respond response401))"
proof -
  have v: "verify demo tok_stale = Inr True"
    by (simp add: demo_defs run_defs)
  have "snd (handler demo (demo_request ''GET'' ''/product-a/content/123''
          [cookie_entry (''jwt='' @ tok_stale)])) = Inr (Respond response401) \<and>
         (verify demo tok_stale = Inr True \<longrightarrow>
            fst (handler demo (demo_request ''GET'' ''/product-a/content/123''
          [cookie_entry (''jwt='' @ tok_stale)])) = [CallVerify tok_stale, CallGetObj tok_stale,
       CallIsExpired (JObj [(''exp'', JNum (Fin 1600000000)), (''custom:subs'', JStr ''A,B'')])])"
  proof (rule expired_rejected [where cookie = "[cookie_entry (''jwt='' @ tok_stale)]"
        and p = seg_claims_stale and x = "Fin 1600000000"])
  qed (simp_all add: demo_defs run_defs)
  with v show ?thesis
    by (simp add: prod_eq_iff)
qed

subsection \<open>C5: The method gate\<close>

text \<open>
  C5 fails for HEAD: a HEAD request without any cookie is sent on to the origin, where
  the same request with method GET is rejected.
\<close>

theorem head_not_filtered:
  "snd (handler demo (bare_request ''HEAD'' ''/product-a/content/123'')) =
     Inr (Forward (bare_request ''HEAD'' ''/product-a/content/123'')) \<and>
   snd (handler demo (bare_request ''GET'' ''/product-a/content/123'')) =
     Inr (Respond response401)"
  by (simp add: handler_def bare_request_def)

text \<open>
  C5, amended. A request whose method is not exactly \<open>GET\<close> (HEAD included) is
  returned unchanged, with no call made; a GET request goes through the filter: it is
  forwarded only when a token was found in its cookie, \<open>verify\<close> accepted that token
  and \<open>isExpired\<close> answered \<open>false\<close> for its claims.
\<close>

theorem only_get_filtered:
  "(req_method request \<noteq> ''GET'' \<longrightarrow> handler rt request = ([], Inr (Forward request))) \<and>
   (req_method request = ''GET'' \<and> snd (handler rt request) = Inr (Forward q) \<longrightarrow>
      (\<exists>cookie jwt obj.
         headers request ''cookie'' = Some cookie \<and> find_jwt cookie = Some jwt \<and>
         fst (handler rt request) = [CallVerify jwt, CallGetObj jwt, CallIsExpired obj] \<and>
         verify rt jwt = Inr True \<and> getObj rt jwt = Inr obj \<and> isExpired rt obj = Inr False))"
proof (intro conjI impI)
  assume "req_method request \<noteq> ''GET''"
  then show "handler rt request = ([], Inr (Forward request))"
    by (simp add: handler_def)
next
  assume a: "req_method request = ''GET'' \<and> snd (handler rt request) = Inr (Forward q)"
  then obtain cookie jwt where c: "headers request ''cookie'' = Some cookie"
    "find_jwt cookie = Some jwt" "jwt \<noteq> []"
    by (auto simp: handler_def split: option.splits if_splits)
  with a have "handler rt request = handler_token rt request jwt"
    by (simp add: handler_get)
  with a c handler_token_forward [of rt request jwt q]
  show "\<exists>cookie jwt obj.
         headers request ''cookie'' = Some cookie \<and> find_jwt cookie = Some jwt \<and>
         fst (handler rt request) = [CallVerify jwt, CallGetObj jwt, CallIsExpired obj] \<and>
         verify rt jwt = Inr True \<and> getObj rt jwt = Inr obj \<and> isExpired rt obj = Inr False"
    by auto
qed

text \<open>
  C5, amended, at a POST request without cookie and at a subscriber's GET request.
\<close>

theorem only_get_filtered_witness:
  "handler demo (bare_request ''POST'' ''/product-a/content/123'') =
     ([], Inr (Forward (bare_request ''POST'' ''/product-a/content/123''))) \<and>
   fst (handler demo (demo_request ''GET'' ''/product-a/content/123''
        [cookie_entry (''jwt='' @ tok_fresh)])) =
     [CallVerify tok_fresh, CallGetObj tok_fresh,
      CallIsExpired (JObj [(''exp'', JNum (Fin 1800000000)), (''custom:subs'', JStr ''A,B'')])] \<and>
   verify demo tok_fresh = Inr True"
proof -
  let ?r = "demo_request ''GET'' ''/product-a/content/123'' [cookie_entry (''jwt='' @ tok_fresh)]"
  have p: "handler demo (bare_request ''POST'' ''/product-a/content/123'') =
     ([], Inr (Forward (bare_request ''POST'' ''/product-a/content/123'')))"
    using only_get_filtered [of "bare_request ''POST'' ''/product-a/content/123''" demo]
    by (simp add: bare_request_def)
  have g: "req_method ?r = ''GET''"
    "snd (handler demo ?r) =
       Inr (Forward (set_header (set_header ?r ''x-is-subscriber'' ''true'') ''x-api-key'' ''s3cr3t''))"
    "headers ?r ''cookie'' = Some [cookie_entry (''jwt='' @ tok_fresh)]"
    "find_jwt [cookie_entry (''jwt='' @ tok_fresh)] = Some tok_fresh"
    "getObj demo tok_fresh =
       Inr (JObj [(''exp'', JNum (Fin 1800000000)), (''custom:subs'', JStr ''A,B'')])"
    by (simp_all add: demo_defs run_defs)
  from only_get_filtered [of ?r demo] g
  have "fst (handler demo ?r) =
     [CallVerify tok_fresh, CallGetObj tok_fresh,
      CallIsExpired (JObj [(''exp'', JNum (Fin 1800000000)), (''custom:subs'', JStr ''A,B'')])] \<and>
   verify demo tok_fresh = Inr True"
    by auto
  with p show ?thesis by simp
qed

subsection \<open>C6: Finding the token in the cookie\<close>

text \<open>
  C6. The loop tests \<open>indexOf(STR) >= 0\<close>, so it stops at the first entry whose value
  contains \<open>jwt=\<close> anywhere, and \<open>substring(STR.length)\<close> cuts the first four
  characters of that value, whatever they are. With the two entries \<open>ajwt=\<close> (a cookie
  named \<open>ajwt\<close>, empty) and \<open>jwt=\<close> followed by a valid token, the token taken is
  \<open>=\<close>, from the first entry, which does not begin with \<open>jwt=\<close>; \<open>verify\<close> is
  called on it and the request is rejected. The second entry alone is forwarded as a
  subscriber's.
\<close>

theorem cookie_match_not_at_start:
  "find_jwt [cookie_entry ''ajwt='', cookie_entry (''jwt='' @ tok_fresh)] = Some ''='' \<and>
   handler demo (demo_request ''GET'' ''/product-a/content/123''
        [cookie_entry ''ajwt='', cookie_entry (''jwt='' @ tok_fresh)]) =
     ([CallVerify ''=''], Inr (Respond response401)) \<and>
   snd (handler demo (demo_request ''GET'' ''/product-a/content/123''
        [cookie_entry (''jwt='' @ tok_fresh)])) =
     Inr (Forward (set_header (set_header (demo_request ''GET'' ''/product-a/content/123''
        [cookie_entry (''jwt='' @ tok_fresh)]) ''x-is-subscriber'' ''true'')
          ''x-api-key'' ''s3cr3t''))"
  by (simp add: demo_defs run_defs)

subsection \<open>C7: verify never throws\<close>

text \<open>
  C7. \<open>verify\<close> is total: for every runtime (key set, decoders, parser, signature
  primitive) and every token string it returns a boolean and lets no exception escape;
  whenever the body of its \<open>try\<close> block throws, the result is \<open>false\<close>; and a GET
  request whose token got \<open>false\<close> is answered with the rejection response.
\<close>

theorem verify_never_throws:
  "(\<exists>b. verify rt jwt = Inr b) \<and>
   (\<forall>e. verify_try rt jwt = Inl e \<longrightarrow> verify rt jwt = Inr False) \<and>
   (verify rt jwt = Inr False \<and> req_method request = ''GET'' \<and>
    headers request ''cookie'' = Some cookie \<and> find_jwt cookie = Some jwt
      \<longrightarrow> snd (handler rt request) = Inr (Respond response401))"
proof (intro conjI allI impI)
  show "\<exists>b. verify rt jwt = Inr b"
    using verify_returns by blast
next
  fix e assume "verify_try rt jwt = Inl e"
  then show "verify rt jwt = Inr False"
    by (simp add: verify_def)
next
  assume "verify rt jwt = Inr False \<and> req_method request = ''GET'' \<and>
    headers request ''cookie'' = Some cookie \<and> find_jwt cookie = Some jwt"
  then show "snd (handler rt request) = Inr (Respond response401)"
    by (simp add: handler_def handler_token_def)
qed

text \<open>
  C7 at a token whose \<open>kid\<close> is \<open>K9\<close>, absent from the key set: the signature
  primitive throws on the missing key, \<open>verify\<close> returns \<open>false\<close>, the request is
  rejected.
\<close>

theorem verify_never_throws_witness:
  "verify_try demo tok_other_key = Inl TypeError \<and>
   verify demo tok_other_key = Inr False \<and>
   snd (handler demo (demo_request ''GET'' ''/product-a/content/123''
          [cookie_entry (''jwt='' @ tok_other_key)])) = Inr (Respond response401)"
proof -
  have t: "verify_try demo tok_other_key = Inl TypeError"
    by (simp add: demo_defs run_defs)
  have c: "find_jwt [cookie_entry (''jwt='' @ tok_other_key)] = Some tok_other_key"
    by (simp add: cookie_entry_def STR'_def substring_def)
  have m: "req_method (demo_request ''GET'' ''/product-a/content/123''
          [cookie_entry (''jwt='' @ tok_other_key)]) = ''GET''"
    "headers (demo_request ''GET'' ''/product-a/content/123''
          [cookie_entry (''jwt='' @ tok_other_key)]) ''cookie'' = Some [cookie_entry (''jwt='' @ tok_other_key)]"
    by (simp_all add: demo_request_def)
  from verify_never_throws [of demo tok_other_key
      "demo_request ''GET'' ''/product-a/content/123'' [cookie_entry (''jwt='' @ tok_other_key)]"
      "[cookie_entry (''jwt='' @ tok_other_key)]"] t c m
  show ?thesis by blast
qed

subsection \<open>C8: One rejection response\<close>

text \<open>
  C8. Every response the handler returns is \<open>response401\<close>, and each of the three
  rejection paths returns it: no token found (or an empty one), \<open>verify\<close> answering
  \<open>false\<close>, \<open>isExpired\<close> answering \<open>true\<close>.
\<close>

theorem rejections_identical:
  "(snd (handler rt request) = Inr (Respond r) \<longrightarrow> r = response401) \<and>
   (req_method request = ''GET'' \<and>
    (case headers request ''cookie'' of None \<Rightarrow> None | Some cookie \<Rightarrow> find_jwt cookie)
      \<in> {None, Some []}
      \<longrightarrow> handler rt request = ([], Inr (Respond response401))) \<and>
   (req_method request = ''GET'' \<and> headers request ''cookie'' = Some cookie \<and>
    find_jwt cookie = Some jwt \<and> jwt \<noteq> [] \<and> verify rt jwt = Inr False
      \<longrightarrow> handler rt request = ([CallVerify jwt], Inr (Respond response401))) \<and>
   (req_method request = ''GET'' \<and> headers request ''cookie'' = Some cookie \<and>
    find_jwt cookie = Some jwt \<and> jwt \<noteq> [] \<and> verify rt jwt = Inr True \<and>
    getObj rt jwt = Inr obj \<and> isExpired rt obj = Inr True
      \<longrightarrow> handler rt request =
            ([CallVerify jwt, CallGetObj jwt, CallIsExpired obj], Inr (Respond response401)))"
proof (intro conjI impI)
  assume "snd (handler rt request) = Inr (Respond r)"
  then show "r = response401" by (rule handler_respond)
next
  assume "req_method request = ''GET'' \<and>
    (case headers request ''cookie'' of None \<Rightarrow> None | Some cookie \<Rightarrow> find_jwt cookie)
      \<in> {None, Some []}"
  then show "handler rt request = ([], Inr (Respond response401))"
    by (auto simp: handler_def)
next
  assume "req_method request = ''GET'' \<and> headers request ''cookie'' = Some cookie \<and>
    find_jwt cookie = Some jwt \<and> jwt \<noteq> [] \<and> verify rt jwt = Inr False"
  then show "handler rt request = ([CallVerify jwt], Inr (Respond response401))"
    by (simp add: handler_def handler_token_def)
next
  assume "req_method request = ''GET'' \<and> headers request ''cookie'' = Some cookie \<and>
    find_jwt cookie = Some jwt \<and> jwt \<noteq> [] \<and> verify rt jwt = Inr True \<and>
    getObj rt jwt = Inr obj \<and> isExpired rt obj = Inr True"
  then show "handler rt request =
            ([CallVerify jwt, CallGetObj jwt, CallIsExpired obj], Inr (Respond response401))"
    by (simp add: handler_def handler_token_def)
qed

text \<open>
  C8 at three GET requests: the cookie \<open>foo=bar\<close>, a token signed with an unknown
  key, and an expired token.
\<close>

theorem rejections_identical_witness:
  "handler demo (demo_request ''GET'' ''/product-a/content/123'' [cookie_entry ''foo=bar'']) =
     ([], Inr (Respond response401)) \<and>
   handler demo (demo_request ''GET'' ''/product-a/content/123''
        [cookie_entry (''jwt='' @ tok_other_key)]) =
     ([CallVerify tok_other_key], Inr (Respond response401)) \<and>
   handler demo (demo_request ''GET'' ''/product-a/content/123''
        [cookie_entry (''jwt='' @ tok_stale)]) =
     ([CallVerify tok_stale, CallGetObj tok_stale,
       CallIsExpired (JObj [(''exp'', JNum (Fin 1600000000)), (''custom:subs'', JStr ''A,B'')])],
      Inr (Respond response401))"
proof -
  have a: "handler demo (demo_request ''GET'' ''/product-a/content/123'' [cookie_entry ''foo=bar'']) =
     ([], Inr (Respond response401))"
    using rejections_identical [of demo
        "demo_request ''GET'' ''/product-a/content/123'' [cookie_entry ''foo=bar'']"]
    by (simp add: demo_request_def cookie_entry_def STR'_def)
  have "verify demo tok_other_key = Inr False"
    by (simp add: demo_defs run_defs)
  then have b: "handler demo (demo_request ''GET'' ''/product-a/content/123''
        [cookie_entry (''jwt='' @ tok_other_key)]) =
     ([CallVerify tok_other_key], Inr (Respond response401))"
    using rejections_identical [of demo
        "demo_request ''GET'' ''/product-a/content/123'' [cookie_entry (''jwt='' @ tok_other_key)]"
        _ "[cookie_entry (''jwt='' @ tok_other_key)]" tok_other_key]
    by (simp add: demo_request_def cookie_entry_def STR'_def substring_def
        tok_other_key_def seg_kid_K9_def)
  have "verify demo tok_stale = Inr True"
    "getObj demo tok_stale =
       Inr (JObj [(''exp'', JNum (Fin 1600000000)), (''custom:subs'', JStr ''A,B'')])"
    "isExpired demo (JObj [(''exp'', JNum (Fin 1600000000)), (''custom:subs'', JStr ''A,B'')])
       = Inr True"
    by (simp_all add: demo_defs run_defs)
  then have c: "handler demo (demo_request ''GET'' ''/product-a/content/123''
        [cookie_entry (''jwt='' @ tok_stale)]) =
     ([CallVerify tok_stale, CallGetObj tok_stale,
       CallIsExpired (JObj [(''exp'', JNum (Fin 1600000000)), (''custom:subs'', JStr ''A,B'')])],
      Inr (Respond response401))"
    using rejections_identical [of demo
        "demo_request ''GET'' ''/product-a/content/123'' [cookie_entry (''jwt='' @ tok_stale)]"
        _ "[cookie_entry (''jwt='' @ tok_stale)]" tok_stale
        "JObj [(''exp'', JNum (Fin 1600000000)), (''custom:subs'', JStr ''A,B'')]"]
    by (simp add: demo_request_def cookie_entry_def STR'_def substring_def
        tok_stale_def seg_kid_K1_def)
  from a b c show ?thesis by simp
qed

subsection \<open>C9: Claims without exp\<close>

text \<open>
  C9 fails when the claims segment is the JSON text \<open>null\<close>: the decoded claims have
  no \<open>exp\<close> member, but \<open>isExpired\<close> throws a TypeError reading \<open>jwtObj.exp\<close>, and
  the handler ends with that exception.
\<close>

theorem null_claims_throw:
  "verify demo tok_null = Inr True \<and>
   getObj demo tok_null = Inr JNull \<and>
   \<not> has_member JNull ''exp'' \<and>
   isExpired demo JNull = Inl TypeError \<and>
   handler demo (demo_request ''GET'' ''/product-a/content/123''
        [cookie_entry (''jwt='' @ tok_null)]) =
     ([CallVerify tok_null, CallGetObj tok_null, CallIsExpired JNull], Inl TypeError)"
  by (simp add: demo_defs run_defs)

text \<open>
  C9, amended. For a GET request whose token verifies and whose decoded claims are not
  \<open>null\<close> and have no \<open>exp\<close> member (the empty array that \<open>getObj\<close> yields for
  invalid JSON included), \<open>isExpired\<close> returns \<open>false\<close> and the handler goes on to
  the entitlement step; it does not return a response.
\<close>

theorem missing_exp_unexpired:
  assumes get: "req_method request = ''GET''"
    and cookie: "headers request ''cookie'' = Some cookie"
    and carried: "find_jwt cookie = Some jwt" "jwt \<noteq> []"
    and verified: "verify rt jwt = Inr True"
    and decoded: "getObj rt jwt = Inr obj"
    and no_exp: "obj \<noteq> JNull" "\<not> has_member obj ''exp''"
  shows "isExpired rt obj = Inr False \<and>
         handler rt request =
           ([CallVerify jwt, CallGetObj jwt, CallIsExpired obj], handler_claims rt request obj) \<and>
         snd (handler rt request) \<noteq> Inr (Respond r)"
proof -
  have ie: "isExpired rt obj = Inr False"
    using no_exp by (rule isExpired_no_exp)
  have "handler rt request =
      ([CallVerify jwt, CallGetObj jwt, CallIsExpired obj], handler_claims rt request obj)"
    using handler_get [OF get cookie carried] handler_token_reached [OF verified decoded ie]
    by simp
  then show ?thesis
    using ie handler_claims_not_respond by simp
qed

text \<open>
  C9, amended, at claims \<open>{"custom:subs":"A"}\<close> and at a claims segment that is not
  JSON.
\<close>

theorem missing_exp_unexpired_witness:
  "isExpired demo (JObj [(''custom:subs'', JStr ''A'')]) = Inr False \<and>
   snd (handler demo (demo_request ''GET'' ''/product-a/content/123''
        [cookie_entry (''jwt='' @ tok_noexp)])) =
     Inr (Forward (set_header (set_header (demo_request ''GET'' ''/product-a/content/123''
        [cookie_entry (''jwt='' @ tok_noexp)]) ''x-is-subscriber'' ''true'')
          ''x-api-key'' ''s3cr3t'')) \<and>
   isExpired demo (JArr []) = Inr False \<and>
   snd (handler demo (demo_request ''GET'' ''/product-a/content/123''
        [cookie_entry (''jwt='' @ tok_not_json)])) =
     Inr (Forward (set_header (set_header (demo_request ''GET'' ''/product-a/content/123''
        [cookie_entry (''jwt='' @ tok_not_json)]) ''x-is-subscriber'' ''false'')
          ''x-api-key'' ''s3cr3t''))"
proof -
  let ?r = "demo_request ''GET'' ''/product-a/content/123'' [cookie_entry (''jwt='' @ tok_noexp)]"
  let ?o = "JObj [(''custom:subs'', JStr ''A'')]"
  let ?r2 = "demo_request ''GET'' ''/product-a/content/123'' [cookie_entry (''jwt='' @ tok_not_json)]"
  have "isExpired demo ?o = Inr False \<and>
         handler demo ?r =
           ([CallVerify tok_noexp, CallGetObj tok_noexp, CallIsExpired ?o],
            handler_claims demo ?r ?o) \<and>
         snd (handler demo ?r) \<noteq> Inr (Respond response401)"
  proof (rule missing_exp_unexpired [where cookie = "[cookie_entry (''jwt='' @ tok_noexp)]"])
  qed (simp_all add: demo_defs run_defs)
  moreover have "handler_claims demo ?r ?o =
     Inr (Forward (set_header (set_header ?r ''x-is-subscriber'' ''true'') ''x-api-key'' ''s3cr3t''))"
    by (simp add: demo_defs run_defs)
  moreover have "isExpired demo (JArr []) = Inr False \<and>
         handler demo ?r2 =
           ([CallVerify tok_not_json, CallGetObj tok_not_json, CallIsExpired (JArr [])],
            handler_claims demo ?r2 (JArr [])) \<and>
         snd (handler demo ?r2) \<noteq> Inr (Respond response401)"
  proof (rule missing_exp_unexpired [where cookie = "[cookie_entry (''jwt='' @ tok_not_json)]"])
  qed (simp_all add: demo_defs run_defs)
  moreover have "handler_claims demo ?r2 (JArr []) =
     Inr (Forward (set_header (set_header ?r2 ''x-is-subscriber'' ''false'') ''x-api-key'' ''s3cr3t''))"
    by (simp add: demo_defs run_defs)
  ultimately show ?thesis
    by simp
qed

subsection \<open>C10: The trust headers are overwritten\<close>

text \<open>
  C10. For a GET request with a non-empty first path segment whose token verifies and is
  unexpired, replacing the inbound \<open>x-is-subscriber\<close> and \<open>x-api-key\<close> headers by
  anything else (or removing them) changes nothing of what the handler does; and in any
  request it forwards, \<open>x-api-key\<close> is the shared secret and \<open>x-is-subscriber\<close> is
  \<open>true\<close> or \<open>false\<close> as the filter set it.
\<close>

theorem trust_headers_overwritten:
  assumes get: "req_method request = ''GET''"
    and cookie: "headers request ''cookie'' = Some cookie"
    and carried: "find_jwt cookie = Some jwt" "jwt \<noteq> []"
    and verified: "verify rt jwt = Inr True"
    and unexpired: "getObj rt jwt = Inr obj" "isExpired rt obj = Inr False"
    and product: "idx (split CHR ''/'' (uri request)) 1 = Some product" "product \<noteq> []"
  shows "handler rt (request\<lparr> headers :=
            (headers request)(''x-is-subscriber'' := a, ''x-api-key'' := b) \<rparr>)
          = handler rt request \<and>
         (\<forall>q. snd (handler rt request) = Inr (Forward q) \<longrightarrow>
            headers q ''x-api-key'' = Some [\<lparr> hdr_key = None, hdr_value = ApiKeyValue rt \<rparr>] \<and>
            (headers q ''x-is-subscriber'' = Some [\<lparr> hdr_key = None, hdr_value = ''true'' \<rparr>] \<or>
             headers q ''x-is-subscriber'' = Some [\<lparr> hdr_key = None, hdr_value = ''false'' \<rparr>]))"
proof -
  let ?r' = "request\<lparr> headers := (headers request)(''x-is-subscriber'' := a, ''x-api-key'' := b) \<rparr>"
  have h: "handler rt request =
      ([CallVerify jwt, CallGetObj jwt, CallIsExpired obj], handler_claims rt request obj)"
    using handler_get [OF get cookie carried] handler_token_reached [OF verified unexpired]
    by simp
  have "req_method ?r' = ''GET''" "headers ?r' ''cookie'' = Some cookie"
    using get cookie by simp_all
  then have h': "handler rt ?r' =
      ([CallVerify jwt, CallGetObj jwt, CallIsExpired obj], handler_claims rt ?r' obj)"
    using handler_get [of ?r' cookie jwt rt] carried
      handler_token_reached [OF verified unexpired, of ?r']
    by simp
  have same: "handler_claims rt ?r' obj = handler_claims rt request obj"
    using product by (subst handler_claims_overwrites) simp
  have vals: "\<forall>q. handler_claims rt request obj = Inr (Forward q) \<longrightarrow>
            headers q ''x-api-key'' = Some [\<lparr> hdr_key = None, hdr_value = ApiKeyValue rt \<rparr>] \<and>
            (headers q ''x-is-subscriber'' = Some [\<lparr> hdr_key = None, hdr_value = ''true'' \<rparr>] \<or>
             headers q ''x-is-subscriber'' = Some [\<lparr> hdr_key = None, hdr_value = ''false'' \<rparr>])"
    using product
    by (cases "get_subs obj") (auto simp: handler_claims_def set_header_def)
  show ?thesis
    using h h' same vals by simp
qed

text \<open>
  C10 at a subscriber of product A who asks for product B and sends
  \<open>x-is-subscriber: true\<close> and a guessed \<open>x-api-key\<close>.
\<close>

theorem trust_headers_overwritten_witness:
  "handler demo forged_request =
     handler demo (demo_request ''GET'' ''/product-b/content/9''
        [cookie_entry (''jwt='' @ tok_noexp)]) \<and>
   snd (handler demo (demo_request ''GET'' ''/product-b/content/9''
        [cookie_entry (''jwt='' @ tok_noexp)])) =
     Inr (Forward (set_header (set_header (demo_request ''GET'' ''/product-b/content/9''
        [cookie_entry (''jwt='' @ tok_noexp)]) ''x-is-subscriber'' ''false'')
          ''x-api-key'' ''s3cr3t''))"
proof -
  let ?r = "demo_request ''GET'' ''/product-b/content/9'' [cookie_entry (''jwt='' @ tok_noexp)]"
  have f: "forged_request = ?r\<lparr> headers := (headers ?r)
      (''x-is-subscriber'' := Some [\<lparr> hdr_key = Some ''X-Is-Subscriber'', hdr_value = ''true'' \<rparr>],
       ''x-api-key'' := Some [\<lparr> hdr_key = Some ''X-Api-Key'', hdr_value = ''guess'' \<rparr>]) \<rparr>"
    by (simp add: forged_request_def demo_request_def)
  have "handler demo (?r\<lparr> headers := (headers ?r)
      (''x-is-subscriber'' := Some [\<lparr> hdr_key = Some ''X-Is-Subscriber'', hdr_value = ''true'' \<rparr>],
       ''x-api-key'' := Some [\<lparr> hdr_key = Some ''X-Api-Key'', hdr_value = ''guess'' \<rparr>]) \<rparr>)
          = handler demo ?r \<and>
         (\<forall>q. snd (handler demo ?r) = Inr (Forward q) \<longrightarrow>
            headers q ''x-api-key'' = Some [\<lparr> hdr_key = None, hdr_value = ApiKeyValue demo \<rparr>] \<and>
            (headers q ''x-is-subscriber'' = Some [\<lparr> hdr_key = None, hdr_value = ''true'' \<rparr>] \<or>
             headers q ''x-is-subscriber'' = Some [\<lparr> hdr_key = None, hdr_value = ''false'' \<rparr>]))"
  proof (rule trust_headers_overwritten [where cookie = "[cookie_entry (''jwt='' @ tok_noexp)]"
        and jwt = tok_noexp and obj = "JObj [(''custom:subs'', JStr ''A'')]"
        and product = "''product-b''"])
  qed (simp_all add: demo_defs run_defs)
  moreover have "snd (handler demo ?r) =
     Inr (Forward (set_header (set_header ?r ''x-is-subscriber'' ''false'') ''x-api-key'' ''s3cr3t''))"
    by (simp add: demo_defs run_defs)
  ultimately show ?thesis
    using f by simp
qed

end
